theory Spec2Isabelle
  imports
    Complex_Main
    "HOL-Library.Word"
    "HOL-Library.Char_ord"
    "HOL-Library.List_Lexorder"
    "HOL-Library.Product_Lexorder"
    "HOL-Library.Multiset"
begin

section \<open>SmartMenu backend: data model\<close>

text \<open>
  The store is the set of SQLModel tables of \<^verbatim>\<open>app/models.py\<close>, each kept as the list of
  its rows in rowid order. A \<^verbatim>\<open>Decimal\<close> is modelled by the rational number it denotes
  (\<^verbatim>\<open>Decimal("0.05")\<close> is \<open>5 / 100\<close>); the arithmetic context of the decimal module
  (28 significant digits) and the way the database engine stores a numeric column are
  outside the model, which is the level at which the design speaks of exact decimals and
  of a generic transactional store. A \<^verbatim>\<open>datetime\<close> is a number of microseconds, a
  \<^verbatim>\<open>UUID\<close> a 128-bit word. The \<^verbatim>\<open>created_at\<close> columns, filled by a column default and read
  by none of the operations below, are left out of the rows.
\<close>

type_synonym decimal = rat
type_synonym datetime = int
type_synonym uuid = "128 word"

record restaurant =
  r_id :: int
  r_slug :: string
  r_name :: string

record menu_item =
  mi_id :: int
  mi_restaurant_id :: int
  mi_name :: string
  mi_description :: "string option"
  mi_category :: string
  mi_price :: decimal
  mi_available :: bool

record modifier =
  mod_id :: int
  mod_restaurant_id :: int
  mod_name :: string
  mod_price :: decimal

record menu_item_modifier =
  mim_id :: int
  mim_menu_item_id :: int
  mim_modifier_id :: int

record guest_session =
  gs_id :: int
  gs_session_id :: uuid
  gs_restaurant_slug :: string
  gs_table_id :: string
  gs_expires_at :: datetime

record order =
  o_id :: int
  o_session_id :: uuid
  o_table_id :: string
  o_status :: string
  o_subtotal :: decimal
  o_tax :: decimal
  o_total_amount :: decimal
  o_payment_method :: string
  o_updated_at :: datetime

record order_item =
  oi_id :: int
  oi_order_id :: int
  oi_menu_item_id :: int
  oi_quantity :: int
  oi_unit_price :: decimal
  oi_note :: "string option"

record order_item_modifier =
  oim_id :: int
  oim_order_item_id :: int
  oim_modifier_id :: int
  oim_price :: decimal

record db =
  restaurants :: "restaurant list"
  menu_items :: "menu_item list"
  modifiers :: "modifier list"
  menu_item_modifiers :: "menu_item_modifier list"
  guest_sessions :: "guest_session list"
  orders :: "order list"
  order_items :: "order_item list"
  order_item_modifiers :: "order_item_modifier list"

text \<open>Request and response models (the Pydantic classes of \<^verbatim>\<open>app/models.py\<close>).\<close>

record order_item_create =
  oic_item_id :: int
  oic_quantity :: int
  oic_modifier_ids :: "int list option"
  oic_note :: "string option"

record order_create =
  oc_session_id :: uuid
  oc_table_id :: string
  oc_items :: "order_item_create list"
  oc_payment_method :: string

record order_response =
  or_order_id :: int
  or_status :: string
  or_total_amount :: decimal

record session_create =
  sc_restaurant_slug :: string
  sc_table_id :: string

record session_response =
  sr_session_id :: uuid
  sr_expires_at :: datetime

text \<open>
  The dictionaries that the endpoints hand to the services: \<^verbatim>\<open>item_id\<close>, \<^verbatim>\<open>quantity\<close>,
  \<^verbatim>\<open>modifier_ids\<close> (already \<^verbatim>\<open>item.modifier_ids or []\<close>) and, for the materializer only,
  \<^verbatim>\<open>note\<close>.
\<close>

record item_data =
  item_id :: int
  quantity :: int
  modifier_ids :: "int list"
  item_note :: "string option"

definition to_item_data :: "order_item_create \<Rightarrow> item_data" where
  "to_item_data it =
     \<lparr>item_id = oic_item_id it,
      quantity = oic_quantity it,
      modifier_ids = (case oic_modifier_ids it of None \<Rightarrow> [] | Some ms \<Rightarrow> ms),
      item_note = oic_note it\<rparr>"

text \<open>
  The two \<^verbatim>\<open>ValueError\<close>s of \<^verbatim>\<open>app/services.py\<close>, told apart by their message, and the
  outcomes of the endpoints: the \<^verbatim>\<open>HTTPException\<close>s they raise, the \<^verbatim>\<open>KeyError\<close> of a
  dictionary lookup and the \<^verbatim>\<open>IntegrityError\<close> of a unique column.
\<close>

datatype value_error = ItemNotFound int | ModifierNotFound int

datatype http_error =
    SessionNotFound
  | TableMismatch
  | BadRequest value_error
  | OrderNotFound
  | InvalidStatus string
  | RestaurantNotFound string
  | KeyError int
  | IntegrityError

section \<open>Store access\<close>

text \<open>\<^verbatim>\<open>session.get(Model, pk)\<close>: the row with that primary key, or \<^verbatim>\<open>None\<close>.\<close>

definition get_menu_item :: "db \<Rightarrow> int \<Rightarrow> menu_item option" where
  "get_menu_item d i = find (\<lambda>m. mi_id m = i) (menu_items d)"

definition get_modifier :: "db \<Rightarrow> int \<Rightarrow> modifier option" where
  "get_modifier d i = find (\<lambda>m. mod_id m = i) (modifiers d)"

definition get_order :: "db \<Rightarrow> int \<Rightarrow> order option" where
  "get_order d i = find (\<lambda>r. o_id r = i) (orders d)"

text \<open>
  The two queries with \<^verbatim>\<open>.first()\<close> that look a row up by a column: the session with a
  given identifier that expires strictly after \<open>now\<close> (\<^verbatim>\<open>create_order\<close>, lines 34 to 38)
  and the restaurant with a given slug (\<^verbatim>\<open>get_restaurant_menu\<close>, lines 18 and 19).
\<close>

definition live_session :: "db \<Rightarrow> uuid \<Rightarrow> datetime \<Rightarrow> guest_session option" where
  "live_session d session_id now =
     find (\<lambda>s. gs_session_id s = session_id \<and> now < gs_expires_at s) (guest_sessions d)"

definition restaurant_by_slug :: "db \<Rightarrow> string \<Rightarrow> restaurant option" where
  "restaurant_by_slug d slug = find (\<lambda>r. r_slug r = slug) (restaurants d)"

text \<open>
  The key an integer primary key column gets on insert: 1 in an empty table, one more than
  the largest key in use otherwise.
\<close>

definition next_id :: "int list \<Rightarrow> int" where
  "next_id ids = (case ids of [] \<Rightarrow> 1 | x # xs \<Rightarrow> fold max xs x + 1)"

section \<open>Pricing engine (\<^verbatim>\<open>app/services.py\<close>, \<^verbatim>\<open>calculate_order_total\<close>)\<close>

definition TAX_RATE :: decimal where
  "TAX_RATE = 5 / 100"

text \<open>The inner loop over \<^verbatim>\<open>modifier_ids\<close> (lines 46 to 51), on the running subtotal.\<close>

fun add_modifier_prices :: "db \<Rightarrow> int \<Rightarrow> int list \<Rightarrow> decimal \<Rightarrow> value_error + decimal" where
  "add_modifier_prices d q [] subtotal = Inr subtotal"
| "add_modifier_prices d q (m # ms) subtotal =
     (case get_modifier d m of
        None \<Rightarrow> Inl (ModifierNotFound m)
      | Some md \<Rightarrow> add_modifier_prices d q ms (subtotal + mod_price md * of_int q))"

text \<open>The outer loop over \<^verbatim>\<open>items\<close> (lines 31 to 51).\<close>

fun add_item_prices :: "db \<Rightarrow> item_data list \<Rightarrow> decimal \<Rightarrow> value_error + decimal" where
  "add_item_prices d [] subtotal = Inr subtotal"
| "add_item_prices d (it # its) subtotal =
     (case get_menu_item d (item_id it) of
        None \<Rightarrow> Inl (ItemNotFound (item_id it))
      | Some mi \<Rightarrow>
          (case add_modifier_prices d (quantity it) (modifier_ids it)
                  (subtotal + mi_price mi * of_int (quantity it)) of
             Inl e \<Rightarrow> Inl e
           | Inr subtotal' \<Rightarrow> add_item_prices d its subtotal'))"

definition calculate_order_total ::
  "db \<Rightarrow> item_data list \<Rightarrow> order option \<Rightarrow> value_error + (decimal \<times> decimal \<times> decimal)" where
  "calculate_order_total d items existing_order =
     (case add_item_prices d items
             (case existing_order of None \<Rightarrow> 0 | Some ord \<Rightarrow> o_subtotal ord) of
        Inl e \<Rightarrow> Inl e
      | Inr subtotal \<Rightarrow>
          (let tax = subtotal * TAX_RATE;
               total_amount = subtotal + tax
           in Inr (subtotal, tax, total_amount)))"

section \<open>Order item materializer (\<^verbatim>\<open>app/services.py\<close>, \<^verbatim>\<open>create_order_items\<close>)\<close>

text \<open>
  The inner loop (lines 101 to 112): one \<^verbatim>\<open>OrderItemModifier\<close> row per modifier id, with
  the modifier's current price, added to the pending state of the database session.
\<close>

fun add_order_item_modifiers :: "db \<Rightarrow> int \<Rightarrow> int list \<Rightarrow> value_error + db" where
  "add_order_item_modifiers d order_item_id [] = Inr d"
| "add_order_item_modifiers d order_item_id (m # ms) =
     (case get_modifier d m of
        None \<Rightarrow> Inl (ModifierNotFound m)
      | Some md \<Rightarrow>
          add_order_item_modifiers
            (d\<lparr>order_item_modifiers := order_item_modifiers d @
                 [\<lparr>oim_id = next_id (map oim_id (order_item_modifiers d)),
                   oim_order_item_id = order_item_id,
                   oim_modifier_id = m,
                   oim_price = mod_price md\<rparr>]\<rparr>)
            order_item_id ms)"

text \<open>
  The outer loop (lines 78 to 114). The result is the pending state and the list
  \<^verbatim>\<open>order_items\<close> of the rows created, in request order; a \<^verbatim>\<open>ValueError\<close> leaves the
  caller with whatever it had before the call.
\<close>

fun create_order_items :: "db \<Rightarrow> int \<Rightarrow> item_data list \<Rightarrow> value_error + (db \<times> order_item list)" where
  "create_order_items d order_id [] = Inr (d, [])"
| "create_order_items d order_id (it # its) =
     (case get_menu_item d (item_id it) of
        None \<Rightarrow> Inl (ItemNotFound (item_id it))
      | Some mi \<Rightarrow>
          (let order_item =
                 \<lparr>oi_id = next_id (map oi_id (order_items d)),
                  oi_order_id = order_id,
                  oi_menu_item_id = item_id it,
                  oi_quantity = quantity it,
                  oi_unit_price = mi_price mi,
                  oi_note = item_note it\<rparr>;
               d1 = d\<lparr>order_items := order_items d @ [order_item]\<rparr>
           in case add_order_item_modifiers d1 (oi_id order_item) (modifier_ids it) of
                Inl e \<Rightarrow> Inl e
              | Inr d2 \<Rightarrow>
                  (case create_order_items d2 order_id its of
                     Inl e \<Rightarrow> Inl e
                   | Inr (d3, created) \<Rightarrow> Inr (d3, order_item # created))))"

section \<open>Order endpoints (\<^verbatim>\<open>app/api/orders.py\<close>)\<close>

text \<open>
  An endpoint takes the committed store and returns the committed store it leaves
  behind, with the response or the error raised. \<^verbatim>\<open>session.commit()\<close> makes the pending
  state the committed one; \<^verbatim>\<open>session.rollback()\<close>, and the end of the request, drop what
  is pending and keep the state of the last commit.

  \<^verbatim>\<open>create_order\<close> commits twice, so it is two units of work. The first (lines 33 to 73)
  checks the session, prices the request and commits the order header; \<open>now\<close> is the
  clock read in the session query (line 36), \<open>stamp\<close> the one read for the
  \<^verbatim>\<open>updated_at\<close> default of the new row.
\<close>

definition create_order_header ::
  "db \<Rightarrow> order_create \<Rightarrow> datetime \<Rightarrow> datetime \<Rightarrow> db \<times> (http_error + order)" where
  "create_order_header d order_data now stamp =
     (case live_session d (oc_session_id order_data) now of
        None \<Rightarrow> (d, Inl SessionNotFound)
      | Some guest_session \<Rightarrow>
          if gs_table_id guest_session \<noteq> oc_table_id order_data then (d, Inl TableMismatch)
          else
            (case calculate_order_total d (map to_item_data (oc_items order_data)) None of
               Inl e \<Rightarrow> (d, Inl (BadRequest e))
             | Inr (subtotal, tax, total_amount) \<Rightarrow>
                 (let new_order =
                        \<lparr>o_id = next_id (map o_id (orders d)),
                         o_session_id = oc_session_id order_data,
                         o_table_id = oc_table_id order_data,
                         o_status = ''pending'',
                         o_subtotal = subtotal,
                         o_tax = tax,
                         o_total_amount = total_amount,
                         o_payment_method = oc_payment_method order_data,
                         o_updated_at = stamp\<rparr>
                  in (d\<lparr>orders := orders d @ [new_order]\<rparr>, Inr new_order))))"

text \<open>
  The second unit of work (lines 75 to 94) starts from the store as committed on line 71,
  which holds the new header: it adds the order items and commits, or rolls back to that
  store on a \<^verbatim>\<open>ValueError\<close>.
\<close>

definition create_order_materialize ::
  "db \<Rightarrow> order \<Rightarrow> item_data list \<Rightarrow> db \<times> (http_error + order_response)" where
  "create_order_materialize committed new_order items =
     (case create_order_items committed (o_id new_order) items of
        Inl e \<Rightarrow> (committed, Inl (BadRequest e))
      | Inr (d', created) \<Rightarrow>
          (d', Inr \<lparr>or_order_id = o_id new_order,
                    or_status = o_status new_order,
                    or_total_amount = o_total_amount new_order\<rparr>))"

definition create_order ::
  "db \<Rightarrow> order_create \<Rightarrow> datetime \<Rightarrow> datetime \<Rightarrow> db \<times> (http_error + order_response)" where
  "create_order d order_data now stamp =
     (case create_order_header d order_data now stamp of
        (d', Inl e) \<Rightarrow> (d', Inl e)
      | (committed, Inr new_order) \<Rightarrow>
          create_order_materialize committed new_order
            (map to_item_data (oc_items order_data)))"

text \<open>\<^verbatim>\<open>update_order\<close>: \<open>now\<close> is the clock read for \<^verbatim>\<open>updated_at\<close> (line 137).\<close>

definition update_order ::
  "db \<Rightarrow> int \<Rightarrow> order_item_create list \<Rightarrow> datetime \<Rightarrow> db \<times> (http_error + order_response)" where
  "update_order d order_id items now =
     (case get_order d order_id of
        None \<Rightarrow> (d, Inl OrderNotFound)
      | Some existing_order \<Rightarrow>
          if o_status existing_order \<noteq> ''pending''
          then (d, Inl (InvalidStatus (o_status existing_order)))
          else
            (case calculate_order_total d (map to_item_data items) (Some existing_order) of
               Inl e \<Rightarrow> (d, Inl (BadRequest e))
             | Inr (subtotal, tax, total_amount) \<Rightarrow>
                 (let updated =
                        existing_order\<lparr>o_subtotal := subtotal,
                                        o_tax := tax,
                                        o_total_amount := total_amount,
                                        o_updated_at := now\<rparr>;
                      d1 = d\<lparr>orders :=
                              map (\<lambda>r. if o_id r = order_id then updated else r) (orders d)\<rparr>
                  in case create_order_items d1 order_id (map to_item_data items) of
                       Inl e \<Rightarrow> (d, Inl (BadRequest e))
                     | Inr (d2, created) \<Rightarrow>
                         (d2, Inr \<lparr>or_order_id = o_id updated,
                                   or_status = o_status updated,
                                   or_total_amount = o_total_amount updated\<rparr>))))"

section \<open>Session endpoint (\<^verbatim>\<open>app/api/sessions.py\<close>)\<close>

definition two_hours :: datetime where
  "two_hours = 2 * 60 * 60 * 1000000"

text \<open>
  \<^verbatim>\<open>create_session\<close> reads the clock twice: \<open>t_new\<close> on line 20, for the expiry of a new
  session, and \<open>t_query\<close> on line 24, in the query. \<open>new_uuid\<close> is the value \<^verbatim>\<open>uuid4\<close>
  draws for a new row; the \<^verbatim>\<open>session_id\<close> column is unique, so the commit of a value
  already stored fails.
\<close>

definition create_session ::
  "db \<Rightarrow> session_create \<Rightarrow> datetime \<Rightarrow> datetime \<Rightarrow> uuid \<Rightarrow> db \<times> (http_error + session_response)" where
  "create_session d session_data t_new t_query new_uuid =
     (let expires_at = t_new + two_hours
      in case find (\<lambda>s. gs_restaurant_slug s = sc_restaurant_slug session_data \<and>
                          gs_table_id s = sc_table_id session_data \<and>
                          t_query < gs_expires_at s)
                (guest_sessions d) of
           Some existing_session \<Rightarrow>
             (d, Inr \<lparr>sr_session_id = gs_session_id existing_session,
                      sr_expires_at = gs_expires_at existing_session\<rparr>)
         | None \<Rightarrow>
             if new_uuid \<in> set (map gs_session_id (guest_sessions d)) then (d, Inl IntegrityError)
             else
               (d\<lparr>guest_sessions := guest_sessions d @
                     [\<lparr>gs_id = next_id (map gs_id (guest_sessions d)),
                       gs_session_id = new_uuid,
                       gs_restaurant_slug = sc_restaurant_slug session_data,
                       gs_table_id = sc_table_id session_data,
                       gs_expires_at = expires_at\<rparr>]\<rparr>,
                Inr \<lparr>sr_session_id = new_uuid, sr_expires_at = expires_at\<rparr>))"

section \<open>Menu endpoint (\<^verbatim>\<open>app/api/restaurants.py\<close>)\<close>

record modifier_dict =
  md_id :: int
  md_name :: string
  md_price :: decimal

record menu_item_response =
  mir_id :: int
  mir_name :: string
  mir_description :: "string option"
  mir_category :: string
  mir_price :: decimal
  mir_available :: bool
  mir_modifiers :: "modifier_dict list option"

record menu_response =
  mr_restaurant :: restaurant
  mr_items :: "menu_item_response list"

text \<open>\<^verbatim>\<open>modifiers_dict\<close> (line 34) and \<^verbatim>\<open>item_mod_map\<close> (lines 39 to 43).\<close>

definition build_modifiers_dict :: "modifier list \<Rightarrow> (int \<rightharpoonup> modifier)" where
  "build_modifiers_dict all_modifiers =
     fold (\<lambda>m dict. dict(mod_id m \<mapsto> m)) all_modifiers Map.empty"

definition build_item_mod_map :: "menu_item_modifier list \<Rightarrow> (int \<rightharpoonup> int list)" where
  "build_item_mod_map item_modifiers =
     fold (\<lambda>im mp. mp(mim_menu_item_id im \<mapsto>
                      (case mp (mim_menu_item_id im) of None \<Rightarrow> [] | Some l \<Rightarrow> l) @
                      [mim_modifier_id im]))
       item_modifiers Map.empty"

text \<open>
  The list comprehension of lines 50 to 57; \<^verbatim>\<open>modifiers_dict[mod_id]\<close> raises
  \<^verbatim>\<open>KeyError\<close> on an id that is not a key. The price goes through \<^verbatim>\<open>float\<close> in the
  source; the model keeps the decimal.
\<close>

fun modifier_list :: "(int \<rightharpoonup> modifier) \<Rightarrow> int list \<Rightarrow> http_error + modifier_dict list" where
  "modifier_list dict [] = Inr []"
| "modifier_list dict (m # ms) =
     (case dict m of
        None \<Rightarrow> Inl (KeyError m)
      | Some md \<Rightarrow>
          (case modifier_list dict ms of
             Inl e \<Rightarrow> Inl e
           | Inr rest \<Rightarrow>
               Inr (\<lparr>md_id = m, md_name = mod_name md, md_price = mod_price md\<rparr> # rest)))"

text \<open>The loop over \<^verbatim>\<open>menu_items\<close> (lines 47 to 67).\<close>

fun items_response ::
  "(int \<rightharpoonup> modifier) \<Rightarrow> (int \<rightharpoonup> int list) \<Rightarrow> menu_item list \<Rightarrow>
   http_error + menu_item_response list" where
  "items_response dict mp [] = Inr []"
| "items_response dict mp (item # items) =
     (case (case mp (mi_id item) of
              None \<Rightarrow> Inr None
            | Some ids \<Rightarrow>
                (case modifier_list dict ids of Inl e \<Rightarrow> Inl e | Inr l \<Rightarrow> Inr (Some l))) of
        Inl e \<Rightarrow> Inl e
      | Inr mods \<Rightarrow>
          (case items_response dict mp items of
             Inl e \<Rightarrow> Inl e
           | Inr rest \<Rightarrow>
               Inr (\<lparr>mir_id = mi_id item,
                     mir_name = mi_name item,
                     mir_description = mi_description item,
                     mir_category = mi_category item,
                     mir_price = mi_price item,
                     mir_available = mi_available item,
                     mir_modifiers = mods\<rparr> # rest)))"

text \<open>
  The query of lines 25 to 29: the rows of the restaurant with \<^verbatim>\<open>available\<close> set,
  \<^verbatim>\<open>ORDER BY category, name\<close> (text compares bytewise).
\<close>

definition select_menu_items :: "db \<Rightarrow> int \<Rightarrow> menu_item list" where
  "select_menu_items d restaurant_id =
     sort_key (\<lambda>i. (mi_category i, mi_name i))
       (filter (\<lambda>i. mi_restaurant_id i = restaurant_id \<and> mi_available i) (menu_items d))"

definition get_restaurant_menu :: "db \<Rightarrow> string \<Rightarrow> http_error + menu_response" where
  "get_restaurant_menu d slug =
     (case restaurant_by_slug d slug of
        None \<Rightarrow> Inl (RestaurantNotFound slug)
      | Some restaurant \<Rightarrow>
          (let menu_items = select_menu_items d (r_id restaurant);
               all_modifiers = filter (\<lambda>m. mod_restaurant_id m = r_id restaurant) (modifiers d);
               modifiers_dict = build_modifiers_dict all_modifiers;
               item_mod_map = build_item_mod_map (menu_item_modifiers d)
           in case items_response modifiers_dict item_mod_map menu_items of
                Inl e \<Rightarrow> Inl e
              | Inr items \<Rightarrow> Inr \<lparr>mr_restaurant = restaurant, mr_items = items\<rparr>))"

section \<open>What the design says of the totals\<close>

text \<open>
  The catalog price of an item or a modifier, the price of one requested line
  (\<open>price \<times> quantity\<close>, plus \<open>modifier price \<times> quantity\<close> for each modifier id of the line)
  and the subtotal of a request: the subtotal of the order appended to, or zero, plus the
  prices of the lines.
\<close>

definition item_price :: "db \<Rightarrow> int \<Rightarrow> decimal" where
  "item_price d i = (case get_menu_item d i of None \<Rightarrow> 0 | Some mi \<Rightarrow> mi_price mi)"

definition modifier_price :: "db \<Rightarrow> int \<Rightarrow> decimal" where
  "modifier_price d m = (case get_modifier d m of None \<Rightarrow> 0 | Some md \<Rightarrow> mod_price md)"

definition line_total :: "db \<Rightarrow> item_data \<Rightarrow> decimal" where
  "line_total d it =
     item_price d (item_id it) * of_int (quantity it) +
     (\<Sum>m\<leftarrow>modifier_ids it. modifier_price d m * of_int (quantity it))"

definition spec_subtotal :: "db \<Rightarrow> item_data list \<Rightarrow> order option \<Rightarrow> decimal" where
  "spec_subtotal d items existing_order =
     (case existing_order of None \<Rightarrow> 0 | Some ord \<Rightarrow> o_subtotal ord) +
     (\<Sum>it\<leftarrow>items. line_total d it)"

definition spec_totals ::
  "db \<Rightarrow> item_data list \<Rightarrow> order option \<Rightarrow> decimal \<times> decimal \<times> decimal" where
  "spec_totals d items existing_order =
     (spec_subtotal d items existing_order,
      spec_subtotal d items existing_order * (5 / 100),
      spec_subtotal d items existing_order + spec_subtotal d items existing_order * (5 / 100))"

text \<open>
  The catalog references of a request in the order in which the loops look them up: for
  each line its menu item, then its modifiers.
\<close>

datatype reference = MenuItemRef int | ModifierRef int

definition references :: "item_data list \<Rightarrow> reference list" where
  "references items =
     concat (map (\<lambda>it. MenuItemRef (item_id it) # map ModifierRef (modifier_ids it)) items)"

fun absent :: "db \<Rightarrow> reference \<Rightarrow> bool" where
  "absent d (MenuItemRef i) = (get_menu_item d i = None)"
| "absent d (ModifierRef m) = (get_modifier d m = None)"

fun not_found :: "reference \<Rightarrow> value_error" where
  "not_found (MenuItemRef i) = ItemNotFound i"
| "not_found (ModifierRef m) = ModifierNotFound m"

definition references_exist :: "db \<Rightarrow> item_data list \<Rightarrow> bool" where
  "references_exist d items =
     list_all (\<lambda>it. get_menu_item d (item_id it) \<noteq> None \<and>
                    list_all (\<lambda>m. get_modifier d m \<noteq> None) (modifier_ids it)) items"

section \<open>The store and the request of \<^verbatim>\<open>tests/test_orders.py\<close>\<close>

text \<open>
  The fixture: one restaurant, the modifiers Extra Cheese (2.50) and Add Bacon (3.00), the
  items Test Burger (15.00, both modifiers) and Test Salad (10.00), and a session for
  table 5 that expires two hours after time 0.
\<close>

definition fixture_session :: guest_session where
  "fixture_session =
     \<lparr>gs_id = 1, gs_session_id = 7, gs_restaurant_slug = ''test-restaurant'',
      gs_table_id = ''5'', gs_expires_at = 7200000000\<rparr>"

definition fixture_db :: db where
  "fixture_db =
     \<lparr>restaurants = [\<lparr>r_id = 1, r_slug = ''test-restaurant'', r_name = ''Test Restaurant''\<rparr>],
      menu_items =
        [\<lparr>mi_id = 1, mi_restaurant_id = 1, mi_name = ''Test Burger'', mi_description = None,
          mi_category = ''mains'', mi_price = 15, mi_available = True\<rparr>,
         \<lparr>mi_id = 2, mi_restaurant_id = 1, mi_name = ''Test Salad'', mi_description = None,
          mi_category = ''starters'', mi_price = 10, mi_available = True\<rparr>],
      modifiers =
        [\<lparr>mod_id = 1, mod_restaurant_id = 1, mod_name = ''Extra Cheese'', mod_price = 5 / 2\<rparr>,
         \<lparr>mod_id = 2, mod_restaurant_id = 1, mod_name = ''Add Bacon'', mod_price = 3\<rparr>],
      menu_item_modifiers =
        [\<lparr>mim_id = 1, mim_menu_item_id = 1, mim_modifier_id = 1\<rparr>,
         \<lparr>mim_id = 2, mim_menu_item_id = 1, mim_modifier_id = 2\<rparr>],
      guest_sessions = [fixture_session],
      orders = [],
      order_items = [],
      order_item_modifiers = []\<rparr>"

text \<open>The request of \<^verbatim>\<open>test_create_order\<close>: one burger with cheese, two salads, cash.\<close>

definition fixture_items :: "order_item_create list" where
  "fixture_items =
     [\<lparr>oic_item_id = 1, oic_quantity = 1, oic_modifier_ids = Some [1], oic_note = None\<rparr>,
      \<lparr>oic_item_id = 2, oic_quantity = 2, oic_modifier_ids = None, oic_note = None\<rparr>]"

definition fixture_order :: order_create where
  "fixture_order =
     \<lparr>oc_session_id = 7, oc_table_id = ''5'', oc_items = fixture_items,
      oc_payment_method = ''cash''\<rparr>"



text \<open>
  The fixture after some orders: order 1 is the pending order of the request above,
  orders 2 and 3 are a completed and a cancelled order of one salad.
\<close>

definition pending_header :: order where
  "pending_header =
     \<lparr>o_id = 1, o_session_id = 7, o_table_id = ''5'', o_status = ''pending'',
      o_subtotal = 75 / 2, o_tax = 15 / 8, o_total_amount = 315 / 8,
      o_payment_method = ''cash'', o_updated_at = 1001\<rparr>"




text \<open>A request for one menu item that is not in the catalog.\<close>

definition absent_item_lines :: "order_item_create list" where
  "absent_item_lines =
     [\<lparr>oic_item_id = 42, oic_quantity = 1, oic_modifier_ids = None, oic_note = None\<rparr>]"

text \<open>
  What the materializer writes for a request: one row per line, for the given order, with
  the line's item, quantity and note and the catalog price of the item as unit price.
\<close>

definition created_for :: "db \<Rightarrow> int \<Rightarrow> item_data list \<Rightarrow> order_item list \<Rightarrow> bool" where
  "created_for d order_id items created \<longleftrightarrow>
     map oi_order_id created = map (\<lambda>_. order_id) items \<and>
     map oi_menu_item_id created = map item_id items \<and>
     map oi_quantity created = map quantity items \<and>
     map oi_unit_price created = map (\<lambda>it. item_price d (item_id it)) items \<and>
     map oi_note created = map item_note items"

text \<open>
  What another transaction leaves of a store when it deletes menu item 2, the salad, as the
  re-seeding of \<^verbatim>\<open>init_db.py\<close> does with every menu item before it inserts them again.
\<close>

definition salad_removed :: "db \<Rightarrow> db" where
  "salad_removed d = d\<lparr>menu_items := filter (\<lambda>m. mi_id m \<noteq> 2) (menu_items d)\<rparr>"

section \<open>What the design says of sessions\<close>

text \<open>
  A stored session is live for a request at time \<open>t\<close> when it is for exactly the
  restaurant slug and table of the request and expires strictly after \<open>t\<close>. The row of a
  new session takes the next key, the identifier drawn and the expiry two hours after the
  time read.
\<close>

definition live_for :: "session_create \<Rightarrow> datetime \<Rightarrow> guest_session \<Rightarrow> bool" where
  "live_for session_data t s \<longleftrightarrow>
     gs_restaurant_slug s = sc_restaurant_slug session_data \<and>
     gs_table_id s = sc_table_id session_data \<and>
     t < gs_expires_at s"

definition new_session :: "db \<Rightarrow> session_create \<Rightarrow> datetime \<Rightarrow> uuid \<Rightarrow> guest_session" where
  "new_session d session_data t new_uuid =
     \<lparr>gs_id = next_id (map gs_id (guest_sessions d)),
      gs_session_id = new_uuid,
      gs_restaurant_slug = sc_restaurant_slug session_data,
      gs_table_id = sc_table_id session_data,
      gs_expires_at = t + two_hours\<rparr>"

text \<open>
  Session requests against the fixture: for table 5, which has a session; for table 6,
  which has none, with the session that the first request for it creates; and for a
  restaurant slug that no restaurant has.
\<close>

definition table_five :: session_create where
  "table_five = \<lparr>sc_restaurant_slug = ''test-restaurant'', sc_table_id = ''5''\<rparr>"

definition table_six :: session_create where
  "table_six = \<lparr>sc_restaurant_slug = ''test-restaurant'', sc_table_id = ''6''\<rparr>"

definition table_six_session :: guest_session where
  "table_six_session =
     \<lparr>gs_id = 2, gs_session_id = 9, gs_restaurant_slug = ''test-restaurant'',
      gs_table_id = ''6'', gs_expires_at = 7200000900\<rparr>"

definition nowhere_table :: session_create where
  "nowhere_table = \<lparr>sc_restaurant_slug = ''nowhere'', sc_table_id = ''1''\<rparr>"

section \<open>What the design says of the menu\<close>

text \<open>
  The columns that a menu item and its entry in the response have in common, and the
  modifier ids linked to a menu item in the junction table, in row order.
\<close>

type_synonym columns = "int \<times> string \<times> string option \<times> string \<times> decimal \<times> bool"

definition item_columns :: "menu_item \<Rightarrow> columns" where
  "item_columns i =
     (mi_id i, mi_name i, mi_description i, mi_category i, mi_price i, mi_available i)"

definition response_columns :: "menu_item_response \<Rightarrow> columns" where
  "response_columns r =
     (mir_id r, mir_name r, mir_description r, mir_category r, mir_price r, mir_available r)"

definition linked_modifier_ids :: "db \<Rightarrow> int \<Rightarrow> int list" where
  "linked_modifier_ids d i =
     map mim_modifier_id (filter (\<lambda>l. mim_menu_item_id l = i) (menu_item_modifiers d))"

text \<open>
  The junction table resolves for a restaurant when every modifier linked to one of its
  available menu items is a modifier of that restaurant.
\<close>

definition links_resolve :: "db \<Rightarrow> restaurant \<Rightarrow> bool" where
  "links_resolve d rest \<longleftrightarrow>
     (\<forall>i\<in>set (menu_items d).
        mi_restaurant_id i = r_id rest \<and> mi_available i \<longrightarrow>
        (\<forall>m\<in>set (linked_modifier_ids d (mi_id i)).
           \<exists>x\<in>set (modifiers d). mod_id x = m \<and> mod_restaurant_id x = r_id rest))"

text \<open>
  An entry shows a menu item when it has the item's columns and its \<^verbatim>\<open>modifiers\<close> field is
  \<^verbatim>\<open>None\<close> for an item that is not a key of \<^verbatim>\<open>item_mod_map\<close>, and otherwise a list with
  the ids that the map has for the item.
\<close>

definition shown_as :: "(int \<rightharpoonup> int list) \<Rightarrow> menu_item \<Rightarrow> menu_item_response \<Rightarrow> bool" where
  "shown_as mp item r \<longleftrightarrow>
     response_columns r = item_columns item \<and>
     (case mp (mi_id item) of
        None \<Rightarrow> mir_modifiers r = None
      | Some ids \<Rightarrow> \<exists>l. mir_modifiers r = Some l \<and> map md_id l = ids)"

text \<open>
  A store with two restaurants. The first has the fixture's burger and salad, a soup that
  is not available and a cake; the second has a pizza with its own modifier. In the second
  store the salad of the first restaurant is linked to the modifier of the second.
\<close>

definition test_restaurant :: restaurant where
  "test_restaurant = \<lparr>r_id = 1, r_slug = ''test-restaurant'', r_name = ''Test Restaurant''\<rparr>"

definition menu_db :: db where
  "menu_db =
     fixture_db
       \<lparr>restaurants :=
          [test_restaurant, \<lparr>r_id = 2, r_slug = ''other'', r_name = ''Other Restaurant''\<rparr>],
        menu_items := menu_items fixture_db @
          [\<lparr>mi_id = 3, mi_restaurant_id = 1, mi_name = ''Soup'', mi_description = None,
            mi_category = ''starters'', mi_price = 6, mi_available = False\<rparr>,
           \<lparr>mi_id = 4, mi_restaurant_id = 1, mi_name = ''Cake'', mi_description = Some ''Lemon'',
            mi_category = ''desserts'', mi_price = 7, mi_available = True\<rparr>,
           \<lparr>mi_id = 5, mi_restaurant_id = 2, mi_name = ''Pizza'', mi_description = None,
            mi_category = ''mains'', mi_price = 12, mi_available = True\<rparr>],
        modifiers := modifiers fixture_db @
          [\<lparr>mod_id = 3, mod_restaurant_id = 2, mod_name = ''Truffle'', mod_price = 4\<rparr>],
        menu_item_modifiers := menu_item_modifiers fixture_db @
          [\<lparr>mim_id = 3, mim_menu_item_id = 5, mim_modifier_id = 3\<rparr>]\<rparr>"

definition foreign_link_db :: db where
  "foreign_link_db =
     menu_db\<lparr>menu_item_modifiers := menu_item_modifiers menu_db @
               [\<lparr>mim_id = 4, mim_menu_item_id = 2, mim_modifier_id = 3\<rparr>]\<rparr>"

section \<open>The pricing engine computes the design's totals\<close>

lemma add_modifier_prices_find:
  "add_modifier_prices d q ms s =
     (case find (absent d) (map ModifierRef ms) of
        None \<Rightarrow> Inr (s + (\<Sum>m\<leftarrow>ms. modifier_price d m * of_int q))
      | Some r \<Rightarrow> Inl (not_found r))"
  by (induction ms arbitrary: s) (auto simp: modifier_price_def split: option.splits)

lemma find_append:
  "find P (xs @ ys) = (case find P xs of None \<Rightarrow> find P ys | Some x \<Rightarrow> Some x)"
  by (induction xs) auto

lemma references_Cons:
  "references (it # items) =
     MenuItemRef (item_id it) # map ModifierRef (modifier_ids it) @ references items"
  by (simp add: references_def)

lemma add_item_prices_find:
  "add_item_prices d items s =
     (case find (absent d) (references items) of
        None \<Rightarrow> Inr (s + (\<Sum>it\<leftarrow>items. line_total d it))
      | Some r \<Rightarrow> Inl (not_found r))"
proof (induction items arbitrary: s)
  case Nil
  show ?case by (simp add: references_def)
next
  case (Cons it items)
  show ?case
  proof (cases "get_menu_item d (item_id it)")
    case None
    then show ?thesis by (simp add: references_Cons)
  next
    case (Some mi)
    have lt: "line_total d it =
        mi_price mi * of_int (quantity it) +
        (\<Sum>m\<leftarrow>modifier_ids it. modifier_price d m * of_int (quantity it))"
      using Some by (simp add: line_total_def item_price_def)
    show ?thesis
    proof (cases "find (absent d) (map ModifierRef (modifier_ids it))")
      case None
      then show ?thesis
        using Some Cons.IH
        by (simp add: references_Cons find_append add_modifier_prices_find lt add.assoc
            split: option.splits)
    next
      case (Some r)
      then show ?thesis
        using \<open>get_menu_item d (item_id it) = Some mi\<close>
        by (simp add: references_Cons find_append add_modifier_prices_find)
    qed
  qed
qed

lemma calculate_order_total_find:
  "calculate_order_total d items ex =
     (case find (absent d) (references items) of
        None \<Rightarrow> Inr (spec_totals d items ex)
      | Some r \<Rightarrow> Inl (not_found r))"
  by (simp add: calculate_order_total_def add_item_prices_find spec_totals_def spec_subtotal_def
      TAX_RATE_def Let_def split: option.splits)

lemma find_absent_modifiers:
  "find (absent d) (map ModifierRef ms) = None \<longleftrightarrow>
     list_all (\<lambda>m. get_modifier d m \<noteq> None) ms"
  by (induction ms) auto

lemma references_exist_Cons:
  "references_exist d (it # items) \<longleftrightarrow>
     get_menu_item d (item_id it) \<noteq> None \<and>
     list_all (\<lambda>m. get_modifier d m \<noteq> None) (modifier_ids it) \<and> references_exist d items"
  by (simp add: references_exist_def)

lemma references_exist_find:
  "references_exist d items \<longleftrightarrow> find (absent d) (references items) = None"
proof (induction items)
  case Nil
  show ?case by (simp add: references_exist_def references_def)
next
  case (Cons it items)
  show ?case
    unfolding references_exist_Cons references_Cons Cons.IH find_absent_modifiers [symmetric]
    by (cases "find (absent d) (map ModifierRef (modifier_ids it))")
       (simp_all add: find_append)
qed


lemmas fixture_defs =
  fixture_db_def fixture_session_def fixture_items_def fixture_order_def to_item_data_def
  get_menu_item_def get_modifier_def get_order_def live_session_def restaurant_by_slug_def










section \<open>The materializer\<close>

lemma absent_order_item_modifiers_update [simp]:
  "absent (d\<lparr>order_item_modifiers := x\<rparr>) = absent d"
proof
  fix r show "absent (d\<lparr>order_item_modifiers := x\<rparr>) r = absent d r"
    by (cases r) (simp_all add: get_menu_item_def get_modifier_def)
qed

lemma absent_order_items_update [simp]:
  "absent (d\<lparr>order_items := x\<rparr>) = absent d"
proof
  fix r show "absent (d\<lparr>order_items := x\<rparr>) r = absent d r"
    by (cases r) (simp_all add: get_menu_item_def get_modifier_def)
qed

lemma absent_orders_update [simp]:
  "absent (d\<lparr>orders := x\<rparr>) = absent d"
proof
  fix r show "absent (d\<lparr>orders := x\<rparr>) r = absent d r"
    by (cases r) (simp_all add: get_menu_item_def get_modifier_def)
qed

lemma modifier_price_order_item_modifiers_update [simp]:
  "modifier_price (d\<lparr>order_item_modifiers := x\<rparr>) = modifier_price d"
  by (rule ext) (simp add: modifier_price_def get_modifier_def)

lemma add_order_item_modifiers_result:
  "case find (absent d) (map ModifierRef ms) of
     None \<Rightarrow>
       \<exists>new. add_order_item_modifiers d oi ms =
                Inr (d\<lparr>order_item_modifiers := order_item_modifiers d @ new\<rparr>) \<and>
             map oim_order_item_id new = map (\<lambda>_. oi) ms \<and>
             map oim_modifier_id new = ms \<and>
             map oim_price new = map (modifier_price d) ms
   | Some r \<Rightarrow> add_order_item_modifiers d oi ms = Inl (not_found r)"
proof (induction ms arbitrary: d)
  case Nil
  show ?case by simp
next
  case (Cons m ms)
  show ?case
  proof (cases "get_modifier d m")
    case None
    then show ?thesis by simp
  next
    case (Some md)
    let ?row = "\<lparr>oim_id = next_id (map oim_id (order_item_modifiers d)),
                 oim_order_item_id = oi, oim_modifier_id = m, oim_price = mod_price md\<rparr>"
    let ?d1 = "d\<lparr>order_item_modifiers := order_item_modifiers d @ [?row]\<rparr>"
    have step: "add_order_item_modifiers d oi (m # ms) = add_order_item_modifiers ?d1 oi ms"
      using Some by simp
    have fnd: "find (absent d) (map ModifierRef (m # ms)) = find (absent d) (map ModifierRef ms)"
      using Some by simp
    have mp: "modifier_price d m = mod_price md"
      using Some by (simp add: modifier_price_def)
    show ?thesis
    proof (cases "find (absent d) (map ModifierRef ms)")
      case None
      with Cons.IH [of ?d1] obtain new where
        n: "add_order_item_modifiers ?d1 oi ms =
              Inr (?d1\<lparr>order_item_modifiers := order_item_modifiers ?d1 @ new\<rparr>)"
          "map oim_order_item_id new = map (\<lambda>_. oi) ms"
          "map oim_modifier_id new = ms"
          "map oim_price new = map (modifier_price d) ms"
        by auto
      have "add_order_item_modifiers d oi (m # ms) =
              Inr (d\<lparr>order_item_modifiers := order_item_modifiers d @ (?row # new)\<rparr>)"
        using n(1) step by simp
      moreover have "map oim_order_item_id (?row # new) = map (\<lambda>_. oi) (m # ms)"
        "map oim_modifier_id (?row # new) = m # ms"
        "map oim_price (?row # new) = map (modifier_price d) (m # ms)"
        using n(2-4) mp by simp_all
      ultimately have "\<exists>new. add_order_item_modifiers d oi (m # ms) =
                Inr (d\<lparr>order_item_modifiers := order_item_modifiers d @ new\<rparr>) \<and>
             map oim_order_item_id new = map (\<lambda>_. oi) (m # ms) \<and>
             map oim_modifier_id new = m # ms \<and>
             map oim_price new = map (modifier_price d) (m # ms)"
        by (intro exI [of _ "?row # new"] conjI)
      then show ?thesis
        unfolding fnd None by (simp only: option.case)
    next
      case (Some r)
      with Cons.IH [of ?d1] have "add_order_item_modifiers ?d1 oi ms = Inl (not_found r)"
        by simp
      then show ?thesis unfolding fnd Some step by simp
    qed
  qed
qed

lemma item_price_order_items_update [simp]:
  "item_price (d\<lparr>order_items := x\<rparr>) = item_price d"
  "item_price (d\<lparr>order_item_modifiers := y\<rparr>) = item_price d"
  by (rule ext, simp add: item_price_def get_menu_item_def)+

lemma get_menu_item_order_items_update [simp]:
  "get_menu_item (d\<lparr>order_items := x\<rparr>) i = get_menu_item d i"
  "get_menu_item (d\<lparr>order_item_modifiers := y\<rparr>) i = get_menu_item d i"
  "get_menu_item (d\<lparr>orders := z\<rparr>) i = get_menu_item d i"
  by (simp_all add: get_menu_item_def)


lemma create_order_items_result:
  "case find (absent d) (references its) of
     None \<Rightarrow>
       \<exists>created new.
         create_order_items d oid its =
           Inr (d\<lparr>order_items := order_items d @ created,
                  order_item_modifiers := order_item_modifiers d @ new\<rparr>, created) \<and>
         created_for d oid its created
   | Some r \<Rightarrow> create_order_items d oid its = Inl (not_found r)"
proof (induction its arbitrary: d)
  case Nil
  have "create_order_items d oid [] =
          Inr (d\<lparr>order_items := order_items d @ [],
                 order_item_modifiers := order_item_modifiers d @ []\<rparr>, []) \<and>
        created_for d oid [] []"
    by (simp add: created_for_def)
  then have "\<exists>created new. create_order_items d oid [] =
          Inr (d\<lparr>order_items := order_items d @ created,
                 order_item_modifiers := order_item_modifiers d @ new\<rparr>, created) \<and>
        created_for d oid [] created"
    by (intro exI)
  then show ?case by (simp only: references_def list.map concat.simps find.simps option.case)
next
  case (Cons it its)
  show ?case
  proof (cases "get_menu_item d (item_id it)")
    case None
    then show ?thesis by (simp add: references_Cons)
  next
    case mi: (Some mi)
    let ?row = "\<lparr>oi_id = next_id (map oi_id (order_items d)), oi_order_id = oid,
                 oi_menu_item_id = item_id it, oi_quantity = quantity it,
                 oi_unit_price = mi_price mi, oi_note = item_note it\<rparr>"
    let ?d1 = "d\<lparr>order_items := order_items d @ [?row]\<rparr>"
    have ip: "item_price d (item_id it) = mi_price mi"
      using mi by (simp add: item_price_def)
    have step: "create_order_items d oid (it # its) =
        (case add_order_item_modifiers ?d1 (oi_id ?row) (modifier_ids it) of
           Inl e \<Rightarrow> Inl e
         | Inr d2 \<Rightarrow>
             (case create_order_items d2 oid its of
                Inl e \<Rightarrow> Inl e
              | Inr (d3, created) \<Rightarrow> Inr (d3, ?row # created)))"
      using mi by (simp add: Let_def)
    have fnd: "find (absent d) (references (it # its)) =
        (case find (absent d) (map ModifierRef (modifier_ids it)) of
           None \<Rightarrow> find (absent d) (references its)
         | Some r \<Rightarrow> Some r)"
      using mi by (simp add: references_Cons find_append)
    show ?thesis
    proof (cases "find (absent d) (map ModifierRef (modifier_ids it))")
      case (Some r)
      with add_order_item_modifiers_result [where d = ?d1 and ms = "modifier_ids it" and oi = "oi_id ?row"]
      have "add_order_item_modifiers ?d1 (oi_id ?row) (modifier_ids it) = Inl (not_found r)"
        by simp
      then show ?thesis unfolding fnd Some step by simp
    next
      case None
      with add_order_item_modifiers_result [where d = ?d1 and ms = "modifier_ids it" and oi = "oi_id ?row"]
      obtain new1 where
        n1: "add_order_item_modifiers ?d1 (oi_id ?row) (modifier_ids it) =
               Inr (?d1\<lparr>order_item_modifiers := order_item_modifiers ?d1 @ new1\<rparr>)"
        by auto
      let ?d2 = "?d1\<lparr>order_item_modifiers := order_item_modifiers ?d1 @ new1\<rparr>"
      have step2: "create_order_items d oid (it # its) =
          (case create_order_items ?d2 oid its of
             Inl e \<Rightarrow> Inl e
           | Inr (d3, created) \<Rightarrow> Inr (d3, ?row # created))"
        unfolding step n1 by simp
      have ab: "absent ?d2 = absent d" by simp
      show ?thesis
      proof (cases "find (absent d) (references its)")
        case r: (Some r)
        with Cons.IH [of ?d2] ab have "create_order_items ?d2 oid its = Inl (not_found r)"
          by simp
        then show ?thesis unfolding fnd None r step2 by simp
      next
        case n: None
        with Cons.IH [of ?d2] ab obtain created new where
          c: "create_order_items ?d2 oid its =
                Inr (?d2\<lparr>order_items := order_items ?d2 @ created,
                        order_item_modifiers := order_item_modifiers ?d2 @ new\<rparr>, created)"
             "created_for ?d2 oid its created"
          by auto
        have "create_order_items d oid (it # its) =
                Inr (d\<lparr>order_items := order_items d @ (?row # created),
                       order_item_modifiers := order_item_modifiers d @ (new1 @ new)\<rparr>,
                     ?row # created)"
          unfolding step2 c(1) by simp
        moreover have "created_for d oid (it # its) (?row # created)"
          using c(2) ip by (simp add: created_for_def)
        ultimately have "\<exists>created new.
            create_order_items d oid (it # its) =
              Inr (d\<lparr>order_items := order_items d @ created,
                     order_item_modifiers := order_item_modifiers d @ new\<rparr>, created) \<and>
            created_for d oid (it # its) created"
          by (intro exI [of _ "?row # created"] exI [of _ "new1 @ new"] conjI)
        then show ?thesis unfolding fnd None n by (simp only: option.case)
      qed
    qed
  qed
qed

section \<open>Appending to an order\<close>








section \<open>Creating an order\<close>

text \<open>
  C7. A create-order request fails with \<open>SessionNotFound\<close> when no stored session has the
  given session id and an expiry strictly after now, and with \<open>TableMismatch\<close> when the
  live session found is for another table. Both come before pricing: the outcome is the
  same whatever the lines of the request are (\<open>items\<close> is arbitrary), and the store is
  left as it was.
\<close>

theorem create_order_session_gate:
  "((\<forall>s\<in>set (guest_sessions d).
        gs_session_id s = oc_session_id order_data \<longrightarrow> gs_expires_at s \<le> now) \<longrightarrow>
      create_order d (order_data\<lparr>oc_items := items\<rparr>) now stamp = (d, Inl SessionNotFound)) \<and>
   (\<forall>guest_session.
      live_session d (oc_session_id order_data) now = Some guest_session \<and>
      gs_table_id guest_session \<noteq> oc_table_id order_data \<longrightarrow>
      create_order d (order_data\<lparr>oc_items := items\<rparr>) now stamp = (d, Inl TableMismatch))"
proof (intro conjI allI impI)
  assume "\<forall>s\<in>set (guest_sessions d).
        gs_session_id s = oc_session_id order_data \<longrightarrow> gs_expires_at s \<le> now"
  then have "live_session d (oc_session_id order_data) now = None"
    by (auto simp: live_session_def find_None_iff)
  then show "create_order d (order_data\<lparr>oc_items := items\<rparr>) now stamp = (d, Inl SessionNotFound)"
    by (simp add: create_order_def create_order_header_def)
next
  fix guest_session
  assume "live_session d (oc_session_id order_data) now = Some guest_session \<and>
      gs_table_id guest_session \<noteq> oc_table_id order_data"
  then show "create_order d (order_data\<lparr>oc_items := items\<rparr>) now stamp = (d, Inl TableMismatch)"
    by (simp add: create_order_def create_order_header_def)
qed


text \<open>
  The request names an absent menu item, which pricing would reject (last conjunct). With
  the session expired (now is its expiry), with an unknown session id and with table 6
  instead of 5, the session errors are raised instead.
\<close>

theorem create_order_session_gate_witness:
  "create_order fixture_db (fixture_order\<lparr>oc_items := absent_item_lines\<rparr>) 7200000000 0 =
     (fixture_db, Inl SessionNotFound) \<and>
   create_order fixture_db (fixture_order\<lparr>oc_session_id := 8, oc_items := absent_item_lines\<rparr>) 1000 0 =
     (fixture_db, Inl SessionNotFound) \<and>
   create_order fixture_db (fixture_order\<lparr>oc_table_id := ''6'', oc_items := absent_item_lines\<rparr>) 1000 0 =
     (fixture_db, Inl TableMismatch) \<and>
   create_order fixture_db (fixture_order\<lparr>oc_items := absent_item_lines\<rparr>) 1000 0 =
     (fixture_db, Inl (BadRequest (ItemNotFound 42)))"
proof -
  have a: "\<forall>s\<in>set (guest_sessions fixture_db).
        gs_session_id s = oc_session_id fixture_order \<longrightarrow> gs_expires_at s \<le> 7200000000"
    by (simp add: fixture_defs)
  have b: "\<forall>s\<in>set (guest_sessions fixture_db).
        gs_session_id s = oc_session_id (fixture_order\<lparr>oc_session_id := 8\<rparr>) \<longrightarrow> gs_expires_at s \<le> 1000"
    by (simp add: fixture_defs)
  have c: "live_session fixture_db (oc_session_id (fixture_order\<lparr>oc_table_id := ''6''\<rparr>)) 1000 = Some fixture_session \<and>
      gs_table_id fixture_session \<noteq> oc_table_id (fixture_order\<lparr>oc_table_id := ''6''\<rparr>)"
    by (simp add: fixture_defs)
  have d: "create_order fixture_db (fixture_order\<lparr>oc_items := absent_item_lines\<rparr>) 1000 0 =
     (fixture_db, Inl (BadRequest (ItemNotFound 42)))"
    by (simp add: create_order_def create_order_header_def calculate_order_total_def
        absent_item_lines_def fixture_defs)
  from create_order_session_gate [of fixture_db fixture_order 7200000000 absent_item_lines 0] a
  have 1: "create_order fixture_db (fixture_order\<lparr>oc_items := absent_item_lines\<rparr>) 7200000000 0 =
     (fixture_db, Inl SessionNotFound)"
    by blast
  from create_order_session_gate
         [of fixture_db "fixture_order\<lparr>oc_session_id := 8\<rparr>" 1000 absent_item_lines 0] b
  have 2: "create_order fixture_db (fixture_order\<lparr>oc_session_id := 8, oc_items := absent_item_lines\<rparr>) 1000 0 =
     (fixture_db, Inl SessionNotFound)"
    by blast
  from create_order_session_gate
         [of fixture_db "fixture_order\<lparr>oc_table_id := ''6''\<rparr>" 1000 absent_item_lines 0] c
  have 3: "create_order fixture_db (fixture_order\<lparr>oc_table_id := ''6'', oc_items := absent_item_lines\<rparr>) 1000 0 =
     (fixture_db, Inl TableMismatch)"
    by blast
  from 1 2 3 d show ?thesis by simp
qed

text \<open>
  The two units of work of \<^verbatim>\<open>create_order\<close>. A \<^verbatim>\<open>ValueError\<close> of the materializer
  rolls the second one back to the store it started from, which holds the header. On a
  store that no one else writes the materializer meets the catalog that the pricing engine
  has just accepted, so the second unit of work cannot fail there and a failed request
  leaves the store as it was.
\<close>

lemma create_order_materialize_rollback:
  assumes "create_order_materialize committed new_order items = (d', Inl e)"
  shows "d' = committed"
  using assms
  by (auto simp: create_order_materialize_def split: sum.splits prod.splits)

lemma create_order_header_failure:
  assumes "create_order_header d order_data now stamp = (d', Inl e)"
  shows "d' = d"
  using assms
  by (auto simp: create_order_header_def Let_def split: option.splits if_splits sum.splits prod.splits)

lemma create_order_header_success:
  assumes "create_order_header d order_data now stamp = (committed, Inr new_order)"
  shows "references_exist d (map to_item_data (oc_items order_data)) \<and>
         committed = d\<lparr>orders := orders d @ [new_order]\<rparr>"
proof -
  from assms obtain t where
    "calculate_order_total d (map to_item_data (oc_items order_data)) None = Inr t"
    and c: "committed = d\<lparr>orders := orders d @ [new_order]\<rparr>"
    by (auto simp: create_order_header_def Let_def
        split: option.splits if_splits sum.splits prod.splits)
  then have "find (absent d) (references (map to_item_data (oc_items order_data))) = None"
    by (simp add: calculate_order_total_find split: option.splits)
  with c show ?thesis by (simp add: references_exist_find)
qed

lemma create_order_materialize_succeeds:
  assumes "references_exist committed items"
  shows "\<exists>d' resp. create_order_materialize committed new_order items = (d', Inr resp)"
proof -
  from assms have "find (absent committed) (references items) = None"
    by (simp add: references_exist_find)
  with create_order_items_result [where d = committed and its = items and oid = "o_id new_order"]
  obtain d' created where "create_order_items committed (o_id new_order) items = Inr (d', created)"
    by auto
  then show ?thesis by (simp add: create_order_materialize_def)
qed

lemma create_order_failure_leaves_store:
  assumes "create_order d order_data now stamp = (d', Inl e)"
  shows "d' = d"
proof (cases "create_order_header d order_data now stamp")
  case (Pair committed res)
  show ?thesis
  proof (cases res)
    case (Inl e')
    with Pair assms create_order_header_failure [of d order_data now stamp committed e']
    show ?thesis by (simp add: create_order_def)
  next
    case (Inr new_order)
    with Pair create_order_header_success [of d order_data now stamp committed new_order]
    have "references_exist d (map to_item_data (oc_items order_data))"
      and c: "committed = d\<lparr>orders := orders d @ [new_order]\<rparr>"
      by simp_all
    then have "references_exist committed (map to_item_data (oc_items order_data))"
      by (simp add: references_exist_find)
    from create_order_materialize_succeeds [OF this, of new_order]
    show ?thesis using assms Pair Inr by (auto simp: create_order_def)
  qed
qed

text \<open>
  \<^verbatim>\<open>update_order\<close> is one unit of work: it commits once, after the materializer, and a
  failed append leaves the store as it was, the totals of the header included.
\<close>

lemma update_order_failure_leaves_store:
  assumes "update_order d order_id items now = (d', Inl e)"
  shows "d' = d"
  using assms
  by (auto simp: update_order_def Let_def
      split: option.splits if_splits sum.splits prod.splits)

text \<open>
  C1 (the code departs from it). The design wants the order header gone when the
  materializer fails. The header is committed on line 71, before the materializer runs; the
  \<^verbatim>\<open>session.rollback()\<close> of line 87 drops the pending order items only. Here the first
  unit of work commits order 1 for the request of the test suite, the salad is deleted
  from the catalog before the second unit of work reads it, the materializer fails with
  \<open>ItemNotFound 2\<close>, and the store is left with the header of order 1 and no order item.
\<close>

theorem create_order_header_outlives_rollback:
  "create_order_header fixture_db fixture_order 1000 1001 =
     (fixture_db\<lparr>orders := [pending_header]\<rparr>, Inr pending_header) \<and>
   create_order_materialize (salad_removed (fixture_db\<lparr>orders := [pending_header]\<rparr>))
       pending_header (map to_item_data fixture_items) =
     (salad_removed (fixture_db\<lparr>orders := [pending_header]\<rparr>),
      Inl (BadRequest (ItemNotFound 2))) \<and>
   orders (salad_removed (fixture_db\<lparr>orders := [pending_header]\<rparr>)) = [pending_header] \<and>
   order_items (salad_removed (fixture_db\<lparr>orders := [pending_header]\<rparr>)) = []"
proof -
  have c: "calculate_order_total fixture_db (map to_item_data (oc_items fixture_order)) None =
      Inr (75 / 2, 15 / 8, 315 / 8)"
    by (simp add: calculate_order_total_def TAX_RATE_def fixture_defs)
  have h: "create_order_header fixture_db fixture_order 1000 1001 =
     (fixture_db\<lparr>orders := [pending_header]\<rparr>, Inr pending_header)"
    unfolding create_order_header_def c
    by (simp add: Let_def pending_header_def next_id_def live_session_def fixture_db_def
        fixture_session_def fixture_order_def)
  have m: "create_order_materialize (salad_removed (fixture_db\<lparr>orders := [pending_header]\<rparr>))
       pending_header (map to_item_data fixture_items) =
     (salad_removed (fixture_db\<lparr>orders := [pending_header]\<rparr>),
      Inl (BadRequest (ItemNotFound 2)))"
    by (simp add: create_order_materialize_def salad_removed_def pending_header_def next_id_def
        fixture_defs)
  have o: "orders (salad_removed (fixture_db\<lparr>orders := [pending_header]\<rparr>)) = [pending_header]"
    "order_items (salad_removed (fixture_db\<lparr>orders := [pending_header]\<rparr>)) = []"
    by (simp_all add: salad_removed_def fixture_db_def)
  from h m o show ?thesis by simp
qed

section \<open>Sessions\<close>

lemma create_session_live_for:
  "create_session d session_data t_new t_query new_uuid =
     (case find (live_for session_data t_query) (guest_sessions d) of
        Some s \<Rightarrow> (d, Inr \<lparr>sr_session_id = gs_session_id s, sr_expires_at = gs_expires_at s\<rparr>)
      | None \<Rightarrow>
          if new_uuid \<in> gs_session_id ` set (guest_sessions d) then (d, Inl IntegrityError)
          else (d\<lparr>guest_sessions := guest_sessions d @ [new_session d session_data t_new new_uuid]\<rparr>,
                Inr \<lparr>sr_session_id = new_uuid, sr_expires_at = t_new + two_hours\<rparr>))"
proof -
  have "(\<lambda>s. gs_restaurant_slug s = sc_restaurant_slug session_data \<and>
             gs_table_id s = sc_table_id session_data \<and> t_query < gs_expires_at s) =
        live_for session_data t_query"
    by (rule ext) (simp add: live_for_def)
  then show ?thesis
    by (simp add: create_session_def new_session_def Let_def split: option.splits)
qed

lemma find_weaker:
  assumes "find P xs = Some s" and "Q s" and "\<And>x. Q x \<Longrightarrow> P x"
  shows "find Q xs = Some s"
  using assms by (induction xs) (auto split: if_splits)

lemma find_None_weaker:
  assumes "find P xs = None" and "\<And>x. Q x \<Longrightarrow> P x"
  shows "find Q xs = None"
  using assms by (induction xs) (auto split: if_splits)

lemma live_for_later: "t \<le> t' \<Longrightarrow> live_for sd t' s \<Longrightarrow> live_for sd t s"
  by (simp add: live_for_def)

text \<open>
  C4. When some stored session is live for the (restaurant slug, table) pair of the
  request, \<^verbatim>\<open>create_session\<close> answers with the identifier and the expiry of such a session
  and leaves the store, and so the stored expiry, as it was. Otherwise, the identifier
  drawn being one that no stored session has, it stores a new session with that identifier
  and the expiry two hours after the time read, and answers with them. A second request for
  the same pair, made no earlier than the first and before the expiry that the first
  answered with, gets the same answer and leaves the store as it was.
\<close>

theorem create_session_reuse_or_new:
  "((\<exists>s\<in>set (guest_sessions d). live_for session_data t_query s) \<longrightarrow>
      (\<exists>s\<in>set (guest_sessions d). live_for session_data t_query s \<and>
         create_session d session_data t_new t_query new_uuid =
           (d, Inr \<lparr>sr_session_id = gs_session_id s, sr_expires_at = gs_expires_at s\<rparr>))) \<and>
   (\<not> (\<exists>s\<in>set (guest_sessions d). live_for session_data t_query s) \<and>
    new_uuid \<notin> gs_session_id ` set (guest_sessions d) \<longrightarrow>
      create_session d session_data t_new t_query new_uuid =
        (d\<lparr>guest_sessions := guest_sessions d @
              [\<lparr>gs_id = next_id (map gs_id (guest_sessions d)),
                gs_session_id = new_uuid,
                gs_restaurant_slug = sc_restaurant_slug session_data,
                gs_table_id = sc_table_id session_data,
                gs_expires_at = t_new + two_hours\<rparr>]\<rparr>,
         Inr \<lparr>sr_session_id = new_uuid, sr_expires_at = t_new + two_hours\<rparr>)) \<and>
   (\<forall>d1 r t_new' t_query' new_uuid'.
      create_session d session_data t_new t_query new_uuid = (d1, Inr r) \<and>
      t_query \<le> t_query' \<and> t_query' < sr_expires_at r \<longrightarrow>
      create_session d1 session_data t_new' t_query' new_uuid' = (d1, Inr r))"
proof (intro conjI allI impI)
  assume "\<exists>s\<in>set (guest_sessions d). live_for session_data t_query s"
  then obtain s where s: "find (live_for session_data t_query) (guest_sessions d) = Some s"
    by (cases "find (live_for session_data t_query) (guest_sessions d)")
       (auto simp: find_None_iff)
  then have "s \<in> set (guest_sessions d)" "live_for session_data t_query s"
    by (auto simp: find_Some_iff)
  with s show "\<exists>s\<in>set (guest_sessions d). live_for session_data t_query s \<and>
         create_session d session_data t_new t_query new_uuid =
           (d, Inr \<lparr>sr_session_id = gs_session_id s, sr_expires_at = gs_expires_at s\<rparr>)"
    by (auto simp: create_session_live_for)
next
  assume "\<not> (\<exists>s\<in>set (guest_sessions d). live_for session_data t_query s) \<and>
    new_uuid \<notin> gs_session_id ` set (guest_sessions d)"
  then have "find (live_for session_data t_query) (guest_sessions d) = None"
    and "new_uuid \<notin> gs_session_id ` set (guest_sessions d)"
    by (auto simp: find_None_iff)
  then show "create_session d session_data t_new t_query new_uuid =
        (d\<lparr>guest_sessions := guest_sessions d @
              [\<lparr>gs_id = next_id (map gs_id (guest_sessions d)),
                gs_session_id = new_uuid,
                gs_restaurant_slug = sc_restaurant_slug session_data,
                gs_table_id = sc_table_id session_data,
                gs_expires_at = t_new + two_hours\<rparr>]\<rparr>,
         Inr \<lparr>sr_session_id = new_uuid, sr_expires_at = t_new + two_hours\<rparr>)"
    by (simp add: create_session_live_for new_session_def)
next
  fix d1 r t_new' t_query' new_uuid'
  assume a: "create_session d session_data t_new t_query new_uuid = (d1, Inr r) \<and>
      t_query \<le> t_query' \<and> t_query' < sr_expires_at r"
  then have le: "t_query \<le> t_query'" and lt: "t_query' < sr_expires_at r"
    and c: "create_session d session_data t_new t_query new_uuid = (d1, Inr r)"
    by simp_all
  show "create_session d1 session_data t_new' t_query' new_uuid' = (d1, Inr r)"
  proof (cases "find (live_for session_data t_query) (guest_sessions d)")
    case (Some s)
    with c have d1: "d1 = d"
      and r: "r = \<lparr>sr_session_id = gs_session_id s, sr_expires_at = gs_expires_at s\<rparr>"
      by (simp_all add: create_session_live_for)
    from Some have "live_for session_data t_query s"
      by (auto simp: find_Some_iff)
    with lt r have l': "live_for session_data t_query' s"
      by (simp add: live_for_def)
    have "find (live_for session_data t_query') (guest_sessions d) = Some s"
      using Some l' live_for_later [OF le]
      by (rule find_weaker [where P = "live_for session_data t_query"
                              and Q = "live_for session_data t_query'"])
    then show ?thesis
      by (simp add: create_session_live_for d1 r)
  next
    case None
    with c have fresh: "new_uuid \<notin> gs_session_id ` set (guest_sessions d)"
      by (auto simp: create_session_live_for split: if_splits)
    with None c have d1: "d1 = d\<lparr>guest_sessions := guest_sessions d @
                                   [new_session d session_data t_new new_uuid]\<rparr>"
      and r: "r = \<lparr>sr_session_id = new_uuid, sr_expires_at = t_new + two_hours\<rparr>"
      by (simp_all add: create_session_live_for)
    have "find (live_for session_data t_query') (guest_sessions d) = None"
      using None live_for_later [OF le]
      by (rule find_None_weaker [where P = "live_for session_data t_query"
                                   and Q = "live_for session_data t_query'"])
    moreover have "live_for session_data t_query' (new_session d session_data t_new new_uuid)"
      using lt r by (simp add: live_for_def new_session_def)
    ultimately show ?thesis
      by (simp add: create_session_live_for d1 r find_append new_session_def)
  qed
qed

lemmas table_defs =
  table_five_def table_six_def table_six_session_def live_for_def two_hours_def next_id_def
  fixture_db_def fixture_session_def

text \<open>
  Table 5 has a session, which is reused. Table 6 has none: the first request creates one
  with the identifier 9, the second, five seconds later, gets it again.
\<close>

theorem create_session_reuse_or_new_witness:
  "create_session fixture_db table_five 900 1000 9 =
     (fixture_db, Inr \<lparr>sr_session_id = 7, sr_expires_at = 7200000000\<rparr>) \<and>
   create_session fixture_db table_six 900 1000 9 =
     (fixture_db\<lparr>guest_sessions := [fixture_session, table_six_session]\<rparr>,
      Inr \<lparr>sr_session_id = 9, sr_expires_at = 7200000900\<rparr>) \<and>
   create_session (fixture_db\<lparr>guest_sessions := [fixture_session, table_six_session]\<rparr>)
       table_six 5000 6000 10 =
     (fixture_db\<lparr>guest_sessions := [fixture_session, table_six_session]\<rparr>,
      Inr \<lparr>sr_session_id = 9, sr_expires_at = 7200000900\<rparr>)"
proof -
  note t5 = create_session_reuse_or_new
                [where d = fixture_db and session_data = table_five
                   and t_new = 900 and t_query = 1000 and new_uuid = 9]
  note t6 = create_session_reuse_or_new
                [where d = fixture_db and session_data = table_six
                   and t_new = 900 and t_query = 1000 and new_uuid = 9]
  have h5: "\<exists>s\<in>set (guest_sessions fixture_db). live_for table_five 1000 s"
    by (simp add: table_defs)
  from t5 h5 have
    "\<exists>s\<in>set (guest_sessions fixture_db). live_for table_five 1000 s \<and>
       create_session fixture_db table_five 900 1000 9 =
         (fixture_db, Inr \<lparr>sr_session_id = gs_session_id s, sr_expires_at = gs_expires_at s\<rparr>)"
    by blast
  then have a: "create_session fixture_db table_five 900 1000 9 =
     (fixture_db, Inr \<lparr>sr_session_id = 7, sr_expires_at = 7200000000\<rparr>)"
    by (simp add: fixture_db_def fixture_session_def)
  have h6: "\<not> (\<exists>s\<in>set (guest_sessions fixture_db). live_for table_six 1000 s) \<and>
      9 \<notin> gs_session_id ` set (guest_sessions fixture_db)"
    by (simp add: table_defs)
  from t6 h6 have "create_session fixture_db table_six 900 1000 9 =
        (fixture_db\<lparr>guest_sessions := guest_sessions fixture_db @
              [\<lparr>gs_id = next_id (map gs_id (guest_sessions fixture_db)),
                gs_session_id = 9,
                gs_restaurant_slug = sc_restaurant_slug table_six,
                gs_table_id = sc_table_id table_six,
                gs_expires_at = 900 + two_hours\<rparr>]\<rparr>,
         Inr \<lparr>sr_session_id = 9, sr_expires_at = 900 + two_hours\<rparr>)"
    by blast
  then have b: "create_session fixture_db table_six 900 1000 9 =
     (fixture_db\<lparr>guest_sessions := [fixture_session, table_six_session]\<rparr>,
      Inr \<lparr>sr_session_id = 9, sr_expires_at = 7200000900\<rparr>)"
    by (simp add: table_defs)
  have w: "(1000::int) \<le> 6000 \<and>
      6000 < sr_expires_at \<lparr>sr_session_id = 9 :: uuid, sr_expires_at = 7200000900\<rparr>"
    by simp
  from t6 b w have c:
    "create_session (fixture_db\<lparr>guest_sessions := [fixture_session, table_six_session]\<rparr>)
       table_six 5000 6000 10 =
     (fixture_db\<lparr>guest_sessions := [fixture_session, table_six_session]\<rparr>,
      Inr \<lparr>sr_session_id = 9, sr_expires_at = 7200000900\<rparr>)"
    by blast
  from a b c show ?thesis by simp
qed

text \<open>
  C10. \<^verbatim>\<open>create_session\<close> does not look at the restaurants: with any other content of the
  restaurant table, the empty one included, the outcome is the same. The only error it can
  end with is that of the unique column, never a not-found error, and with an identifier
  that no stored session has it returns a session for every restaurant slug.
\<close>

theorem create_session_ignores_restaurants:
  "create_session (d\<lparr>restaurants := rs\<rparr>) session_data t_new t_query new_uuid =
     (case create_session d session_data t_new t_query new_uuid of
        (d', res) \<Rightarrow> (d'\<lparr>restaurants := rs\<rparr>, res)) \<and>
   (\<forall>e. snd (create_session d session_data t_new t_query new_uuid) = Inl e \<longrightarrow>
        e = IntegrityError) \<and>
   (new_uuid \<notin> gs_session_id ` set (guest_sessions d) \<longrightarrow>
      (\<exists>d' r. create_session d session_data t_new t_query new_uuid = (d', Inr r)))"
  by (cases "find (live_for session_data t_query) (guest_sessions d)")
     (simp_all add: create_session_live_for new_session_def)

text \<open>
  With no restaurant at all, a request for the slug \<^verbatim>\<open>nowhere\<close> gets a session.
\<close>

theorem create_session_ignores_restaurants_witness:
  "restaurant_by_slug (fixture_db\<lparr>restaurants := []\<rparr>) ''nowhere'' = None \<and>
   9 \<notin> gs_session_id ` set (guest_sessions fixture_db) \<and>
   (\<exists>d' r. create_session (fixture_db\<lparr>restaurants := []\<rparr>) nowhere_table 900 1000 9 =
      (d'\<lparr>restaurants := []\<rparr>, Inr r))"
proof -
  have f: "9 \<notin> gs_session_id ` set (guest_sessions fixture_db)"
    by (simp add: fixture_db_def fixture_session_def)
  note t = create_session_ignores_restaurants
             [where d = fixture_db and rs = "[]" and session_data = nowhere_table
                and t_new = 900 and t_query = 1000 and new_uuid = 9]
  from t f obtain d' r where
    "create_session fixture_db nowhere_table 900 1000 9 = (d', Inr r)"
    by blast
  with t have "create_session (fixture_db\<lparr>restaurants := []\<rparr>) nowhere_table 900 1000 9 =
      (d'\<lparr>restaurants := []\<rparr>, Inr r)"
    by simp
  then have "\<exists>d' r. create_session (fixture_db\<lparr>restaurants := []\<rparr>) nowhere_table 900 1000 9 =
      (d'\<lparr>restaurants := []\<rparr>, Inr r)"
    by (intro exI)
  with f show ?thesis by (simp add: restaurant_by_slug_def)
qed

section \<open>The menu\<close>

lemma fold_item_mod_map:
  fixes rows :: "menu_item_modifier list"
  defines "f \<equiv> \<lambda>im mp. mp(mim_menu_item_id im \<mapsto>
                    (case mp (mim_menu_item_id im) of None \<Rightarrow> [] | Some l \<Rightarrow> l) @
                    [mim_modifier_id im])"
  shows "fold f rows mp0 k =
     (case map mim_modifier_id (filter (\<lambda>l. mim_menu_item_id l = k) rows) of
        [] \<Rightarrow> mp0 k
      | m # ms \<Rightarrow> Some ((case mp0 k of None \<Rightarrow> [] | Some l \<Rightarrow> l) @ m # ms))"
proof (induction rows arbitrary: mp0)
  case Nil
  show ?case by simp
next
  case (Cons r rows)
  have v: "f r mp0 k =
      (if mim_menu_item_id r = k
       then Some ((case mp0 k of None \<Rightarrow> [] | Some l \<Rightarrow> l) @ [mim_modifier_id r])
       else mp0 k)"
    by (simp add: f_def)
  have "fold f (r # rows) mp0 k = fold f rows (f r mp0) k"
    by simp
  also have "\<dots> =
     (case map mim_modifier_id (filter (\<lambda>l. mim_menu_item_id l = k) rows) of
        [] \<Rightarrow> f r mp0 k
      | m # ms \<Rightarrow> Some ((case f r mp0 k of None \<Rightarrow> [] | Some l \<Rightarrow> l) @ m # ms))"
    by (rule Cons.IH)
  also have "\<dots> =
     (case map mim_modifier_id (filter (\<lambda>l. mim_menu_item_id l = k) (r # rows)) of
        [] \<Rightarrow> mp0 k
      | m # ms \<Rightarrow> Some ((case mp0 k of None \<Rightarrow> [] | Some l \<Rightarrow> l) @ m # ms))"
    unfolding v by (simp split: list.splits option.splits)
  finally show ?case .
qed

lemma build_item_mod_map_linked:
  "build_item_mod_map (menu_item_modifiers d) k =
     (if linked_modifier_ids d k = [] then None else Some (linked_modifier_ids d k))"
  unfolding build_item_mod_map_def fold_item_mod_map linked_modifier_ids_def
  by (simp split: list.splits)

lemma fold_modifiers_dict:
  "fold (\<lambda>m dict. dict(mod_id m \<mapsto> m)) ms d0 k \<noteq> None \<longleftrightarrow>
     d0 k \<noteq> None \<or> (\<exists>x\<in>set ms. mod_id x = k)"
  by (induction ms arbitrary: d0) auto

lemma build_modifiers_dict_dom:
  "build_modifiers_dict ms k \<noteq> None \<longleftrightarrow> (\<exists>x\<in>set ms. mod_id x = k)"
  by (simp add: build_modifiers_dict_def fold_modifiers_dict del: not_None_eq)

lemma modifier_list_ok:
  assumes "\<forall>m\<in>set ids. dict m \<noteq> None"
  shows "\<exists>l. modifier_list dict ids = Inr l \<and> map md_id l = ids"
  using assms by (induction ids) auto

lemma modifier_list_error:
  assumes "modifier_list dict ids = Inl e"
  shows "\<exists>m\<in>set ids. dict m = None \<and> e = KeyError m"
  using assms by (induction ids) (auto split: option.splits sum.splits)

lemma items_response_ok:
  assumes "\<forall>item\<in>set items. \<forall>ids. mp (mi_id item) = Some ids \<longrightarrow> (\<forall>m\<in>set ids. dict m \<noteq> None)"
  shows "\<exists>rs. items_response dict mp items = Inr rs \<and> list_all2 (shown_as mp) items rs"
  using assms
proof (induction items)
  case Nil
  show ?case by simp
next
  case (Cons item items)
  then obtain rs where rs: "items_response dict mp items = Inr rs"
    "list_all2 (shown_as mp) items rs"
    by auto
  show ?case
  proof (cases "mp (mi_id item)")
    case None
    let ?r = "\<lparr>mir_id = mi_id item, mir_name = mi_name item,
                mir_description = mi_description item, mir_category = mi_category item,
                mir_price = mi_price item, mir_available = mi_available item,
                mir_modifiers = None\<rparr>"
    have "items_response dict mp (item # items) = Inr (?r # rs)"
      using None rs(1) by simp
    moreover have "shown_as mp item ?r"
      using None by (simp add: shown_as_def response_columns_def item_columns_def)
    ultimately show ?thesis using rs(2) by simp
  next
    case (Some ids)
    with Cons.prems have "\<forall>m\<in>set ids. dict m \<noteq> None" by simp
    from modifier_list_ok [OF this] obtain l where
      l: "modifier_list dict ids = Inr l" "map md_id l = ids"
      by auto
    let ?r = "\<lparr>mir_id = mi_id item, mir_name = mi_name item,
                mir_description = mi_description item, mir_category = mi_category item,
                mir_price = mi_price item, mir_available = mi_available item,
                mir_modifiers = Some l\<rparr>"
    have "items_response dict mp (item # items) = Inr (?r # rs)"
      using Some rs(1) l(1) by simp
    moreover have "shown_as mp item ?r"
      using Some l(2) by (simp add: shown_as_def response_columns_def item_columns_def)
    ultimately show ?thesis using rs(2) by simp
  qed
qed

lemma shown_as_columns:
  assumes "list_all2 (shown_as mp) items rs"
  shows "map response_columns rs = map item_columns items"
  using assms by (induction rule: list_all2_induct) (simp_all add: shown_as_def)

lemma shown_as_modifiers:
  assumes "list_all2 (shown_as mp) items rs" and "r \<in> set rs"
  shows "\<exists>item\<in>set items. shown_as mp item r"
  using assms by (induction rule: list_all2_induct) auto

lemmas menu_defs =
  menu_db_def foreign_link_db_def test_restaurant_def fixture_db_def fixture_session_def
  restaurant_by_slug_def

text \<open>
  C8, as the claim states it, fails: the restaurant exists and there is no menu response.
  The salad is linked to a modifier of another restaurant, which is not a key of
  \<^verbatim>\<open>modifiers_dict\<close>, and the lookup raises \<^verbatim>\<open>KeyError\<close>.
\<close>

theorem menu_fails_on_foreign_modifier:
  "restaurant_by_slug foreign_link_db ''test-restaurant'' = Some test_restaurant \<and>
   get_restaurant_menu foreign_link_db ''test-restaurant'' = Inl (KeyError 3)"
  by (simp add: get_restaurant_menu_def select_menu_items_def build_modifiers_dict_def
      build_item_mod_map_def menu_defs)

text \<open>
  C8, amended. For an existing restaurant slug whose junction rows resolve (every modifier
  linked to an available item of the restaurant is a modifier of the restaurant), the
  endpoint returns a menu. Its entries are exactly the restaurant's menu items that are
  available, ordered by (category, name), and the \<^verbatim>\<open>modifiers\<close> field of an entry is null
  when no modifier is linked to the item and otherwise the list of the linked modifiers,
  never an empty list.
\<close>

theorem get_restaurant_menu_available_sorted:
  assumes "restaurant_by_slug d slug = Some rest"
    and "links_resolve d rest"
  shows "\<exists>resp. get_restaurant_menu d slug = Inr resp \<and>
           mr_restaurant resp = rest \<and>
           mset (map response_columns (mr_items resp)) =
             mset (map item_columns
                    (filter (\<lambda>i. mi_restaurant_id i = r_id rest \<and> mi_available i)
                       (menu_items d))) \<and>
           sorted (map (\<lambda>r. (mir_category r, mir_name r)) (mr_items resp)) \<and>
           (\<forall>r\<in>set (mr_items resp).
              mir_modifiers r \<noteq> Some [] \<and>
              (mir_modifiers r = None \<longleftrightarrow> linked_modifier_ids d (mir_id r) = []) \<and>
              (\<forall>l. mir_modifiers r = Some l \<longrightarrow>
                 map md_id l = linked_modifier_ids d (mir_id r)))"
proof -
  let ?items = "select_menu_items d (r_id rest)"
  let ?dict = "build_modifiers_dict
                 (filter (\<lambda>m. mod_restaurant_id m = r_id rest) (modifiers d))"
  let ?mp = "build_item_mod_map (menu_item_modifiers d)"
  have set_items: "set ?items =
      {i \<in> set (menu_items d). mi_restaurant_id i = r_id rest \<and> mi_available i}"
    by (auto simp: select_menu_items_def)
  have "\<forall>item\<in>set ?items. \<forall>ids. ?mp (mi_id item) = Some ids \<longrightarrow>
          (\<forall>m\<in>set ids. ?dict m \<noteq> None)"
  proof (intro ballI allI impI)
    fix item ids m
    assume item: "item \<in> set ?items" and ids: "?mp (mi_id item) = Some ids" and m: "m \<in> set ids"
    from ids have "ids = linked_modifier_ids d (mi_id item)"
      by (simp add: build_item_mod_map_linked split: if_splits)
    with m item assms(2) set_items
    have "\<exists>x\<in>set (modifiers d). mod_id x = m \<and> mod_restaurant_id x = r_id rest"
      by (auto simp: links_resolve_def)
    then show "?dict m \<noteq> None"
      unfolding build_modifiers_dict_dom by auto
  qed
  from items_response_ok [OF this] obtain rs where
    rs: "items_response ?dict ?mp ?items = Inr rs" "list_all2 (shown_as ?mp) ?items rs"
    by auto
  let ?resp = "\<lparr>mr_restaurant = rest, mr_items = rs\<rparr>"
  have res: "get_restaurant_menu d slug = Inr ?resp"
    using assms(1) rs(1) by (simp add: get_restaurant_menu_def Let_def)
  have cols: "map response_columns rs = map item_columns ?items"
    using rs(2) by (rule shown_as_columns)
  have perm: "mset (map response_columns rs) =
      mset (map item_columns
             (filter (\<lambda>i. mi_restaurant_id i = r_id rest \<and> mi_available i) (menu_items d)))"
    unfolding cols by (simp add: select_menu_items_def)
  have "map (\<lambda>r. (mir_category r, mir_name r)) rs =
        map ((\<lambda>c. (fst (snd (snd (snd c))), fst (snd c))) \<circ> response_columns) rs"
    by (simp add: response_columns_def)
  also have "\<dots> = map (\<lambda>c. (fst (snd (snd (snd c))), fst (snd c))) (map item_columns ?items)"
    unfolding cols [symmetric] by simp
  also have "\<dots> = map (\<lambda>i. (mi_category i, mi_name i)) ?items"
    by (simp add: item_columns_def)
  finally have keys: "map (\<lambda>r. (mir_category r, mir_name r)) rs =
      map (\<lambda>i. (mi_category i, mi_name i)) ?items" .
  have srt: "sorted (map (\<lambda>r. (mir_category r, mir_name r)) rs)"
    unfolding keys select_menu_items_def by (rule sorted_sort_key)
  have mods: "\<forall>r\<in>set rs.
      mir_modifiers r \<noteq> Some [] \<and>
      (mir_modifiers r = None \<longleftrightarrow> linked_modifier_ids d (mir_id r) = []) \<and>
      (\<forall>l. mir_modifiers r = Some l \<longrightarrow> map md_id l = linked_modifier_ids d (mir_id r))"
  proof
    fix r assume "r \<in> set rs"
    with rs(2) obtain item where "shown_as ?mp item r"
      using shown_as_modifiers by blast
    then have id: "mir_id r = mi_id item"
      and c: "case ?mp (mi_id item) of
                None \<Rightarrow> mir_modifiers r = None
              | Some ids \<Rightarrow> \<exists>l. mir_modifiers r = Some l \<and> map md_id l = ids"
      by (simp_all add: shown_as_def response_columns_def item_columns_def)
    show "mir_modifiers r \<noteq> Some [] \<and>
      (mir_modifiers r = None \<longleftrightarrow> linked_modifier_ids d (mir_id r) = []) \<and>
      (\<forall>l. mir_modifiers r = Some l \<longrightarrow> map md_id l = linked_modifier_ids d (mir_id r))"
    proof (cases "linked_modifier_ids d (mi_id item) = []")
      case True
      with c have "mir_modifiers r = None"
        by (simp add: build_item_mod_map_linked)
      with True id show ?thesis by simp
    next
      case False
      with c obtain l where "mir_modifiers r = Some l"
        "map md_id l = linked_modifier_ids d (mi_id item)"
        by (auto simp: build_item_mod_map_linked)
      with False id show ?thesis by auto
    qed
  qed
  have "get_restaurant_menu d slug = Inr ?resp \<and>
        mr_restaurant ?resp = rest \<and>
        mset (map response_columns (mr_items ?resp)) =
          mset (map item_columns
                 (filter (\<lambda>i. mi_restaurant_id i = r_id rest \<and> mi_available i)
                    (menu_items d))) \<and>
        sorted (map (\<lambda>r. (mir_category r, mir_name r)) (mr_items ?resp)) \<and>
        (\<forall>r\<in>set (mr_items ?resp).
           mir_modifiers r \<noteq> Some [] \<and>
           (mir_modifiers r = None \<longleftrightarrow> linked_modifier_ids d (mir_id r) = []) \<and>
           (\<forall>l. mir_modifiers r = Some l \<longrightarrow>
              map md_id l = linked_modifier_ids d (mir_id r)))"
    using res perm srt mods by simp
  then show ?thesis by (rule exI)
qed

text \<open>
  The first restaurant of the two-restaurant store: its junction rows resolve, and the
  menu is the cake, the burger with its two modifiers and the salad; the soup, which is
  not available, and the pizza of the other restaurant are left out.
\<close>

theorem get_restaurant_menu_available_sorted_witness:
  "restaurant_by_slug menu_db ''test-restaurant'' = Some test_restaurant \<and>
   links_resolve menu_db test_restaurant \<and>
   (\<exists>resp. get_restaurant_menu menu_db ''test-restaurant'' = Inr resp \<and>
      mr_restaurant resp = test_restaurant \<and>
      mset (map response_columns (mr_items resp)) =
        mset (map item_columns
               (filter (\<lambda>i. mi_restaurant_id i = r_id test_restaurant \<and> mi_available i)
                  (menu_items menu_db))) \<and>
      sorted (map (\<lambda>r. (mir_category r, mir_name r)) (mr_items resp)) \<and>
      (\<forall>r\<in>set (mr_items resp).
         mir_modifiers r \<noteq> Some [] \<and>
         (mir_modifiers r = None \<longleftrightarrow> linked_modifier_ids menu_db (mir_id r) = []) \<and>
         (\<forall>l. mir_modifiers r = Some l \<longrightarrow>
            map md_id l = linked_modifier_ids menu_db (mir_id r))))"
proof -
  have h1: "restaurant_by_slug menu_db ''test-restaurant'' = Some test_restaurant"
    by (simp add: menu_defs)
  have h2: "links_resolve menu_db test_restaurant"
    by (simp add: links_resolve_def linked_modifier_ids_def menu_defs)
  from get_restaurant_menu_available_sorted [OF h1 h2] h1 h2 show ?thesis
    by (intro conjI)
qed

lemma menu_db_response:
  "map_sum id (\<lambda>resp. map (\<lambda>r. (mir_name r, map_option (map md_name) (mir_modifiers r)))
                        (mr_items resp))
     (get_restaurant_menu menu_db ''test-restaurant'') =
   Inr [(''Cake'', None), (''Test Burger'', Some [''Extra Cheese'', ''Add Bacon'']),
        (''Test Salad'', None)]"
  by (simp add: get_restaurant_menu_def select_menu_items_def build_modifiers_dict_def
      build_item_mod_map_def menu_defs)

end
